theory Spec2Isabelle
  imports Main
begin

section \<open>C strings, pointers and the store\<close>

text \<open>
  \<^verbatim>\<open>java_props.h\<close> works on \<^verbatim>\<open>char *\<close> values. A \<^verbatim>\<open>char\<close> is one byte, which is
  what a HOL \<^typ>\<open>char\<close> is. A pointer is null, points at the array of a string literal
  (static storage, identified by the literal's text), or points at a buffer that the
  caller owns; the store maps the caller's buffers to the bytes they hold, from the
  pointed-at byte to the end of the buffer.
\<close>

datatype cptr = NULL | Literal string | Buf nat

type_synonym store = "nat \<rightharpoonup> char list"

datatype error = Null_Dereference | Invalid_Pointer | Out_Of_Bounds

definition NUL :: char where
  "NUL = CHR 0x00"

text \<open>The bytes readable through a pointer. A literal's array is its text and a terminator.\<close>

fun bytes_at :: "store \<Rightarrow> cptr \<Rightarrow> error + char list" where
  "bytes_at \<sigma> NULL = Inl Null_Dereference"
| "bytes_at \<sigma> (Literal s) = Inr (s @ [NUL])"
| "bytes_at \<sigma> (Buf b) = (case \<sigma> b of None \<Rightarrow> Inl Invalid_Pointer | Some bs \<Rightarrow> Inr bs)"

text \<open>
  The C library's \<^verbatim>\<open>strcmp\<close>: walk both arrays byte by byte, stop at the first
  difference (the result is the difference of the two bytes read as unsigned char) or at
  a terminator common to both (the result is 0). Running off the end of an array that
  has no terminator is a read out of bounds.
\<close>

fun strcmp_bytes :: "char list \<Rightarrow> char list \<Rightarrow> error + int" where
  "strcmp_bytes [] ys = Inl Out_Of_Bounds"
| "strcmp_bytes (x # xs) [] = Inl Out_Of_Bounds"
| "strcmp_bytes (x # xs) (y # ys) =
     (if x \<noteq> y then Inr (int (of_char x) - int (of_char y))
      else if x = NUL then Inr 0
      else strcmp_bytes xs ys)"

definition strcmp :: "store \<Rightarrow> cptr \<Rightarrow> cptr \<Rightarrow> error + int" where
  "strcmp \<sigma> s1 s2 =
     (case bytes_at \<sigma> s1 of
        Inl e \<Rightarrow> Inl e
      | Inr xs \<Rightarrow> (case bytes_at \<sigma> s2 of Inl e \<Rightarrow> Inl e | Inr ys \<Rightarrow> strcmp_bytes xs ys))"

text \<open>
  The string a pointer denotes: the bytes before the first terminator, when the pointer
  can be read and its array has a terminator.
\<close>

definition c_string :: "store \<Rightarrow> cptr \<Rightarrow> string option" where
  "c_string \<sigma> p =
     (case bytes_at \<sigma> p of
        Inl e \<Rightarrow> None
      | Inr bs \<Rightarrow> if NUL \<in> set bs then Some (takeWhile (\<lambda>c. c \<noteq> NUL) bs) else None)"

section \<open>The encoding names\<close>

definition UTF_8 :: string where
  "UTF_8 = ''UTF-8''"

definition ISO_8859_1 :: string where
  "ISO_8859_1 = ''ISO-8859-1''"

definition US_ASCII :: string where
  "US_ASCII = ''US-ASCII''"

definition ISO_8859_15 :: string where
  "ISO_8859_15 = ''ISO-8859-15''"

definition WINDOWS_1251 :: string where
  "WINDOWS_1251 = ''windows-1251''"

section \<open>normalize_encoding\<close>

text \<open>
  The function reads the store and returns it as it was given, with the pointer it
  returns, or with the error of the first \<^verbatim>\<open>strcmp\<close> that cannot read its argument.
  The \<^verbatim>\<open>||\<close> of the third test evaluates its right operand only when the left one
  is false.
\<close>

definition normalize_encoding :: "cptr \<Rightarrow> store \<Rightarrow> (error + cptr) \<times> store" where
  "normalize_encoding encoding \<sigma> =
     (case strcmp \<sigma> encoding (Literal ''ISO8859-1'') of
        Inl e \<Rightarrow> (Inl e, \<sigma>)
      | Inr r1 \<Rightarrow>
          if r1 = 0 then (Inr (Literal ISO_8859_1), \<sigma>)
          else
            (case strcmp \<sigma> encoding (Literal ''ISO8859-15'') of
               Inl e \<Rightarrow> (Inl e, \<sigma>)
             | Inr r2 \<Rightarrow>
                 if r2 = 0 then (Inr (Literal ISO_8859_15), \<sigma>)
                 else
                   (case strcmp \<sigma> encoding (Literal ''ANSI_X3.4-1968'') of
                      Inl e \<Rightarrow> (Inl e, \<sigma>)
                    | Inr r3 \<Rightarrow>
                        if r3 = 0 then (Inr (Literal US_ASCII), \<sigma>)
                        else
                          (case strcmp \<sigma> encoding (Literal ''ISO646-US'') of
                             Inl e \<Rightarrow> (Inl e, \<sigma>)
                           | Inr r4 \<Rightarrow>
                               if r4 = 0 then (Inr (Literal US_ASCII), \<sigma>)
                               else (Inr encoding, \<sigma>)))))"

text \<open>
  The string a call hands back: the string its returned pointer denotes in the store it
  leaves behind, when the call returned a pointer.
\<close>

definition result_string :: "(error + cptr) \<times> store \<Rightarrow> string option" where
  "result_string r = (case r of (Inl e, \<sigma>) \<Rightarrow> None | (Inr p, \<sigma>) \<Rightarrow> c_string \<sigma> p)"

text \<open>Calling \<open>f\<close> on the pointer a first call returned, in the store it left.\<close>

definition and_then ::
  "(error + cptr) \<times> store \<Rightarrow> (cptr \<Rightarrow> store \<Rightarrow> (error + cptr) \<times> store)
   \<Rightarrow> (error + cptr) \<times> store" where
  "and_then r f = (case r of (Inl e, \<sigma>) \<Rightarrow> (Inl e, \<sigma>) | (Inr p, \<sigma>) \<Rightarrow> f p \<sigma>)"

section \<open>The property record\<close>

text \<open>
  \<^verbatim>\<open>java_props_t\<close> is a declaration, and what it declares depends on three macros of the
  build. The claims about it are about which members a build has and of what type, so
  the declaration is kept as data: for a build, the members in their order, each with
  its name and its C type.
\<close>

datatype ctype = C_char | C_WCHAR | C_int | C_const ctype | C_pointer ctype

record build =
  WIN32 :: bool
  JDK_ARCH_ABI_PROP_NAME :: bool
  MACOSX :: bool

text \<open>The preferred native type for storing text on the current OS.\<close>

definition nchar :: "build \<Rightarrow> ctype" where
  "nchar b = (if WIN32 b then C_WCHAR else C_char)"

definition java_props_t :: "build \<Rightarrow> (string \<times> ctype) list" where
  "java_props_t b =
     [(''os_name'', C_pointer C_char),
      (''os_version'', C_pointer C_char),
      (''os_arch'', C_pointer C_char)]
     @ (if JDK_ARCH_ABI_PROP_NAME b then [(''sun_arch_abi'', C_pointer C_char)] else [])
     @ [(''tmp_dir'', C_pointer (nchar b)),
        (''user_dir'', C_pointer (nchar b)),
        (''file_separator'', C_pointer C_char),
        (''path_separator'', C_pointer C_char),
        (''line_separator'', C_pointer C_char),
        (''user_name'', C_pointer (nchar b)),
        (''user_home'', C_pointer (nchar b)),
        (''format_language'', C_pointer C_char),
        (''display_language'', C_pointer C_char),
        (''format_script'', C_pointer C_char),
        (''display_script'', C_pointer C_char),
        (''format_country'', C_pointer C_char),
        (''display_country'', C_pointer C_char),
        (''format_variant'', C_pointer C_char),
        (''display_variant'', C_pointer C_char),
        (''encoding'', C_pointer C_char),
        (''sun_jnu_encoding'', C_pointer C_char),
        (''sun_stdout_encoding'', C_pointer C_char),
        (''sun_stderr_encoding'', C_pointer C_char),
        (''unicode_encoding'', C_pointer C_char),
        (''cpu_isalist'', C_pointer (C_const C_char)),
        (''cpu_endian'', C_pointer C_char),
        (''data_model'', C_pointer C_char),
        (''patch_level'', C_pointer C_char)]
     @ (if MACOSX b then
          [(''httpProxyEnabled'', C_int),
           (''httpHost'', C_pointer C_char),
           (''httpPort'', C_pointer C_char),
           (''httpsProxyEnabled'', C_int),
           (''httpsHost'', C_pointer C_char),
           (''httpsPort'', C_pointer C_char),
           (''ftpProxyEnabled'', C_int),
           (''ftpHost'', C_pointer C_char),
           (''ftpPort'', C_pointer C_char),
           (''socksProxyEnabled'', C_int),
           (''socksHost'', C_pointer C_char),
           (''socksPort'', C_pointer C_char),
           (''exceptionList'', C_pointer C_char)]
        else [])"

section \<open>What strcmp decides\<close>

text \<open>
  Against a literal, \<^verbatim>\<open>strcmp\<close> on a terminated array returns a value, and the value is 0
  exactly when the bytes before the array's first terminator are the literal's text.
\<close>

lemma strcmp_bytes_literal:
  "NUL \<in> set xs \<Longrightarrow> NUL \<notin> set lit \<Longrightarrow>
   \<exists>r. strcmp_bytes xs (lit @ [NUL]) = Inr r
       \<and> (r = 0) = (takeWhile (\<lambda>c. c \<noteq> NUL) xs = lit)"
proof (induction xs arbitrary: lit)
  case Nil
  then show ?case by simp
next
  case (Cons x xs)
  show ?case
  proof (cases lit)
    case Nil
    then show ?thesis by auto
  next
    case (Cons y ys)
    show ?thesis
    proof (cases "x = y")
      case True
      with Cons Cons.prems have "x \<noteq> NUL" "NUL \<in> set xs" "NUL \<notin> set ys"
        by auto
      from Cons.IH [OF this(2,3)] True Cons \<open>x \<noteq> NUL\<close> show ?thesis
        by simp
    next
      case False
      with Cons show ?thesis by auto
    qed
  qed
qed

lemma strcmp_literal:
  assumes "c_string \<sigma> p = Some s" and "NUL \<notin> set lit"
  shows "\<exists>r. strcmp \<sigma> p (Literal lit) = Inr r \<and> (r = 0) = (s = lit)"
proof -
  from assms(1) obtain bs where bs: "bytes_at \<sigma> p = Inr bs" "NUL \<in> set bs"
    "s = takeWhile (\<lambda>c. c \<noteq> NUL) bs"
    by (auto simp: c_string_def split: sum.splits if_splits)
  from strcmp_bytes_literal [OF bs(2) assms(2)] bs show ?thesis
    by (simp add: strcmp_def)
qed

lemma c_string_Literal: "NUL \<notin> set lit \<Longrightarrow> c_string \<sigma> (Literal lit) = Some lit"
  by (simp add: c_string_def takeWhile_append)

lemma c_string_not_NULL: "c_string \<sigma> p = Some s \<Longrightarrow> p \<noteq> NULL"
  by (auto simp: c_string_def)

section \<open>The normalizer on strings\<close>

text \<open>On a pointer that denotes the string \<open>s\<close>, the four tests decide on \<open>s\<close> alone.\<close>

lemma normalize_encoding_string:
  assumes "c_string \<sigma> encoding = Some s"
  shows "normalize_encoding encoding \<sigma> =
    (Inr (if s = ''ISO8859-1'' then Literal ISO_8859_1
          else if s = ''ISO8859-15'' then Literal ISO_8859_15
          else if s = ''ANSI_X3.4-1968'' \<or> s = ''ISO646-US'' then Literal US_ASCII
          else encoding), \<sigma>)"
proof -
  obtain r1 where r1: "strcmp \<sigma> encoding (Literal ''ISO8859-1'') = Inr r1"
      "(r1 = 0) = (s = ''ISO8859-1'')"
    using strcmp_literal [OF assms, of "''ISO8859-1''"] by (auto simp: NUL_def)
  obtain r2 where r2: "strcmp \<sigma> encoding (Literal ''ISO8859-15'') = Inr r2"
      "(r2 = 0) = (s = ''ISO8859-15'')"
    using strcmp_literal [OF assms, of "''ISO8859-15''"] by (auto simp: NUL_def)
  obtain r3 where r3: "strcmp \<sigma> encoding (Literal ''ANSI_X3.4-1968'') = Inr r3"
      "(r3 = 0) = (s = ''ANSI_X3.4-1968'')"
    using strcmp_literal [OF assms, of "''ANSI_X3.4-1968''"] by (auto simp: NUL_def)
  obtain r4 where r4: "strcmp \<sigma> encoding (Literal ''ISO646-US'') = Inr r4"
      "(r4 = 0) = (s = ''ISO646-US'')"
    using strcmp_literal [OF assms, of "''ISO646-US''"] by (auto simp: NUL_def)
  show ?thesis
    unfolding normalize_encoding_def using r1 r2 r3 r4 by simp
qed

text \<open>Whatever the pointer, a call ends in one of the function's five exits.\<close>

lemma normalize_encoding_cases:
  "(\<exists>e. normalize_encoding encoding \<sigma> = (Inl e, \<sigma>))
   \<or> normalize_encoding encoding \<sigma> = (Inr (Literal ISO_8859_1), \<sigma>)
   \<or> normalize_encoding encoding \<sigma> = (Inr (Literal ISO_8859_15), \<sigma>)
   \<or> normalize_encoding encoding \<sigma> = (Inr (Literal US_ASCII), \<sigma>)
   \<or> normalize_encoding encoding \<sigma> = (Inr encoding, \<sigma>)"
  unfolding normalize_encoding_def by (simp split: sum.splits)

lemma normalize_encoding_canonical:
  "normalize_encoding (Literal ISO_8859_1) \<sigma> = (Inr (Literal ISO_8859_1), \<sigma>)"
  "normalize_encoding (Literal ISO_8859_15) \<sigma> = (Inr (Literal ISO_8859_15), \<sigma>)"
  "normalize_encoding (Literal US_ASCII) \<sigma> = (Inr (Literal US_ASCII), \<sigma>)"
  by (simp_all add: normalize_encoding_def strcmp_def ISO_8859_1_def ISO_8859_15_def
      US_ASCII_def NUL_def)

lemma canonical_strings:
  "c_string \<sigma> (Literal ISO_8859_1) = Some ''ISO-8859-1''"
  "c_string \<sigma> (Literal ISO_8859_15) = Some ''ISO-8859-15''"
  "c_string \<sigma> (Literal US_ASCII) = Some ''US-ASCII''"
  by (simp_all add: c_string_Literal ISO_8859_1_def ISO_8859_15_def US_ASCII_def NUL_def)

text \<open>A pointer that cannot be read makes the first \<^verbatim>\<open>strcmp\<close> fail: the function has
  no check of its own.\<close>

lemma normalize_encoding_NULL:
  "normalize_encoding NULL \<sigma> = (Inl Null_Dereference, \<sigma>)"
  by (simp add: normalize_encoding_def strcmp_def)

section \<open>Properties of normalize_encoding\<close>

text \<open>
  C1. Each of the four legacy aliases is mapped to its canonical IANA name: on a pointer
  that denotes \<^verbatim>\<open>ISO8859-1\<close> the call returns the string \<^verbatim>\<open>ISO-8859-1\<close>, on
  \<^verbatim>\<open>ISO8859-15\<close> it returns \<^verbatim>\<open>ISO-8859-15\<close>, and on \<^verbatim>\<open>ANSI_X3.4-1968\<close> and on
  \<^verbatim>\<open>ISO646-US\<close> it returns \<^verbatim>\<open>US-ASCII\<close>.
\<close>

theorem normalize_encoding_aliases:
  assumes "c_string \<sigma> encoding = Some s"
  shows "(s = ''ISO8859-1'' \<longrightarrow>
            result_string (normalize_encoding encoding \<sigma>) = Some ''ISO-8859-1'')
       \<and> (s = ''ISO8859-15'' \<longrightarrow>
            result_string (normalize_encoding encoding \<sigma>) = Some ''ISO-8859-15'')
       \<and> (s = ''ANSI_X3.4-1968'' \<longrightarrow>
            result_string (normalize_encoding encoding \<sigma>) = Some ''US-ASCII'')
       \<and> (s = ''ISO646-US'' \<longrightarrow>
            result_string (normalize_encoding encoding \<sigma>) = Some ''US-ASCII'')"
  by (simp add: normalize_encoding_string [OF assms] result_string_def canonical_strings)

theorem normalize_encoding_aliases_witness:
  "result_string (normalize_encoding (Literal ''ISO8859-1'') Map.empty) = Some ''ISO-8859-1''
   \<and> result_string (normalize_encoding (Buf 0) [0 \<mapsto> ''ISO8859-15'' @ [CHR 0x00]])
       = Some ''ISO-8859-15''
   \<and> result_string (normalize_encoding (Buf 7) [7 \<mapsto> ''ANSI_X3.4-1968'' @ [CHR 0x00, CHR ''x'']])
       = Some ''US-ASCII''
   \<and> result_string (normalize_encoding (Literal ''ISO646-US'') Map.empty) = Some ''US-ASCII''"
  using normalize_encoding_aliases [of Map.empty "Literal ''ISO8859-1''" "''ISO8859-1''"]
    normalize_encoding_aliases [of "[0 \<mapsto> ''ISO8859-15'' @ [CHR 0x00]]" "Buf 0" "''ISO8859-15''"]
    normalize_encoding_aliases [of "[7 \<mapsto> ''ANSI_X3.4-1968'' @ [CHR 0x00, CHR ''x'']]" "Buf 7"
      "''ANSI_X3.4-1968''"]
    normalize_encoding_aliases [of Map.empty "Literal ''ISO646-US''" "''ISO646-US''"]
  by (simp add: c_string_def NUL_def)

text \<open>
  C2. Every other string is handed back as it came: when the pointer denotes a string
  that is none of the four aliases, the call returns the very pointer it was given. The
  comparison is exact: the empty string, \<^verbatim>\<open>iso8859-1\<close> in lower case, a canonical name
  such as \<^verbatim>\<open>UTF-8\<close>, and a string that only starts with an alias all pass through.
\<close>

theorem normalize_encoding_identity:
  assumes "c_string \<sigma> encoding = Some s"
    and "s \<notin> {''ISO8859-1'', ''ISO8859-15'', ''ANSI_X3.4-1968'', ''ISO646-US''}"
  shows "normalize_encoding encoding \<sigma> = (Inr encoding, \<sigma>)
       \<and> result_string (normalize_encoding encoding \<sigma>) = Some s"
  using assms by (simp add: normalize_encoding_string [OF assms(1)] result_string_def)

theorem normalize_encoding_identity_witness:
  "normalize_encoding (Literal '''') Map.empty = (Inr (Literal ''''), Map.empty)
   \<and> result_string (normalize_encoding (Literal '''') Map.empty) = Some ''''
   \<and> normalize_encoding (Buf 3) [3 \<mapsto> ''iso8859-1'' @ [CHR 0x00]]
       = (Inr (Buf 3), [3 \<mapsto> ''iso8859-1'' @ [CHR 0x00]])
   \<and> result_string (normalize_encoding (Buf 3) [3 \<mapsto> ''iso8859-1'' @ [CHR 0x00]])
       = Some ''iso8859-1''
   \<and> normalize_encoding (Literal UTF_8) Map.empty = (Inr (Literal UTF_8), Map.empty)
   \<and> result_string (normalize_encoding (Literal UTF_8) Map.empty) = Some ''UTF-8''
   \<and> normalize_encoding (Buf 0) [0 \<mapsto> ''ISO8859-16'' @ [CHR 0x00]]
       = (Inr (Buf 0), [0 \<mapsto> ''ISO8859-16'' @ [CHR 0x00]])
   \<and> result_string (normalize_encoding (Buf 0) [0 \<mapsto> ''ISO8859-16'' @ [CHR 0x00]])
       = Some ''ISO8859-16''"
  using normalize_encoding_identity [of Map.empty "Literal ''''" "''''"]
    normalize_encoding_identity [of "[3 \<mapsto> ''iso8859-1'' @ [CHR 0x00]]" "Buf 3" "''iso8859-1''"]
    normalize_encoding_identity [of Map.empty "Literal UTF_8" "''UTF-8''"]
    normalize_encoding_identity [of "[0 \<mapsto> ''ISO8859-16'' @ [CHR 0x00]]" "Buf 0" "''ISO8859-16''"]
  by (simp add: c_string_def result_string_def NUL_def UTF_8_def)

text \<open>
  C3. The normalizer is idempotent: calling it again on the pointer it returned, in the
  store it left, gives what the first call gave. This holds for every pointer and store:
  a first call that fails has nothing to call again on, and the three canonical literals
  are not aliases.
\<close>

theorem normalize_encoding_idempotent:
  "and_then (normalize_encoding encoding \<sigma>) normalize_encoding
     = normalize_encoding encoding \<sigma>"
  using normalize_encoding_cases [of encoding \<sigma>]
  by (auto simp: and_then_def normalize_encoding_canonical)

text \<open>
  C4. On a pointer that denotes a string (so not null, readable, terminated) the call
  returns a pointer: none of the error exits is taken. The function is a composition of
  total functions, \<open>strcmp_bytes\<close> recursing on the list of bytes, so it terminates.
\<close>

theorem normalize_encoding_total:
  assumes "c_string \<sigma> encoding = Some s"
  shows "\<exists>p. fst (normalize_encoding encoding \<sigma>) = Inr p"
  by (simp add: normalize_encoding_string [OF assms])

theorem normalize_encoding_total_witness:
  "(\<exists>p. fst (normalize_encoding (Buf 1) [1 \<mapsto> ''KOI8-R'' @ [CHR 0x00]]) = Inr p)
   \<and> (\<exists>p. fst (normalize_encoding (Literal ''ISO8859-1'') Map.empty) = Inr p)"
  using normalize_encoding_total [of "[1 \<mapsto> ''KOI8-R'' @ [CHR 0x00]]" "Buf 1" "''KOI8-R''"]
    normalize_encoding_total [of Map.empty "Literal ''ISO8859-1''" "''ISO8859-1''"]
  by (simp add: c_string_def NUL_def)

text \<open>
  C5. The normalizer has no side effect and is deterministic: a call leaves the store as
  it found it, so the string its argument denotes is what it was, and two calls whose
  arguments denote the same string, through whatever pointers and in whatever stores,
  return the same string.
\<close>

theorem normalize_encoding_pure:
  "snd (normalize_encoding encoding \<sigma>) = \<sigma>
   \<and> c_string (snd (normalize_encoding encoding \<sigma>)) encoding = c_string \<sigma> encoding
   \<and> (c_string \<sigma> encoding = Some s \<and> c_string \<sigma>' encoding' = Some s \<longrightarrow>
        result_string (normalize_encoding encoding \<sigma>)
          = result_string (normalize_encoding encoding' \<sigma>'))"
proof -
  have frame: "snd (normalize_encoding encoding \<sigma>) = \<sigma>"
    using normalize_encoding_cases [of encoding \<sigma>] by auto
  have "result_string (normalize_encoding encoding \<sigma>)
          = result_string (normalize_encoding encoding' \<sigma>')"
    if a: "c_string \<sigma> encoding = Some s" and b: "c_string \<sigma>' encoding' = Some s"
    by (simp add: normalize_encoding_string [OF a] normalize_encoding_string [OF b]
        result_string_def canonical_strings a b)
  with frame show ?thesis by simp
qed

theorem normalize_encoding_pure_witness:
  "snd (normalize_encoding (Buf 0) [0 \<mapsto> ''ISO646-US'' @ [CHR 0x00], 1 \<mapsto> ''Big5'' @ [CHR 0x00]])
     = [0 \<mapsto> ''ISO646-US'' @ [CHR 0x00], 1 \<mapsto> ''Big5'' @ [CHR 0x00]]
   \<and> result_string (normalize_encoding (Buf 0) [0 \<mapsto> ''ISO646-US'' @ [CHR 0x00], 1 \<mapsto> ''Big5'' @ [CHR 0x00]])
     = result_string (normalize_encoding (Literal ''ISO646-US'') Map.empty)
   \<and> result_string (normalize_encoding (Buf 1) [0 \<mapsto> ''ISO646-US'' @ [CHR 0x00], 1 \<mapsto> ''Big5'' @ [CHR 0x00]])
     = result_string (normalize_encoding (Buf 5) [5 \<mapsto> ''Big5'' @ [CHR 0x00, CHR ''?'']])"
  using normalize_encoding_pure [of "Buf 0"
      "[0 \<mapsto> ''ISO646-US'' @ [CHR 0x00], 1 \<mapsto> ''Big5'' @ [CHR 0x00]]" "''ISO646-US''"
      Map.empty "Literal ''ISO646-US''"]
    normalize_encoding_pure [of "Buf 1"
      "[0 \<mapsto> ''ISO646-US'' @ [CHR 0x00], 1 \<mapsto> ''Big5'' @ [CHR 0x00]]" "''Big5''"
      "[5 \<mapsto> ''Big5'' @ [CHR 0x00, CHR ''?'']]" "Buf 5"]
  by (simp add: c_string_def NUL_def)

text \<open>
  C10. On a pointer that denotes a string \<open>s\<close>, the call returns either that pointer
  or a pointer to one of the three literals \<^verbatim>\<open>ISO-8859-1\<close>, \<^verbatim>\<open>ISO-8859-15\<close>,
  \<^verbatim>\<open>US-ASCII\<close>. The returned pointer is not null, and the string it denotes is \<open>s\<close> or
  one of those three names and nothing else: \<^verbatim>\<open>windows-1251\<close> comes back only for an
  argument that already denotes it.
\<close>

theorem normalize_encoding_range:
  assumes "c_string \<sigma> encoding = Some s"
  shows "\<exists>p t. normalize_encoding encoding \<sigma> = (Inr p, \<sigma>)
       \<and> p \<in> {encoding, Literal ISO_8859_1, Literal ISO_8859_15, Literal US_ASCII}
       \<and> p \<noteq> NULL
       \<and> c_string \<sigma> p = Some t
       \<and> t \<in> {s, ''ISO-8859-1'', ''ISO-8859-15'', ''US-ASCII''}
       \<and> (t = WINDOWS_1251) = (s = WINDOWS_1251)"
  using c_string_not_NULL [OF assms]
  by (auto simp: normalize_encoding_string [OF assms] canonical_strings assms
      WINDOWS_1251_def)

theorem normalize_encoding_range_witness:
  "\<exists>p t. normalize_encoding (Literal WINDOWS_1251) Map.empty = (Inr p, Map.empty)
       \<and> p \<in> {Literal WINDOWS_1251, Literal ISO_8859_1, Literal ISO_8859_15, Literal US_ASCII}
       \<and> p \<noteq> NULL
       \<and> c_string Map.empty p = Some t
       \<and> t \<in> {''windows-1251'', ''ISO-8859-1'', ''ISO-8859-15'', ''US-ASCII''}
       \<and> (t = WINDOWS_1251) = (''windows-1251'' = WINDOWS_1251)"
  using normalize_encoding_range [of Map.empty "Literal WINDOWS_1251" "''windows-1251''"]
  by (simp add: c_string_def NUL_def WINDOWS_1251_def)

section \<open>Properties of the property record\<close>

text \<open>No build declares a member twice.\<close>

lemma java_props_t_distinct: "distinct (map fst (java_props_t b))"
  by (cases "MACOSX b"; cases "JDK_ARCH_ABI_PROP_NAME b") (simp_all add: java_props_t_def)

text \<open>
  C6, as the declaration has it. The temporary directory, the user's working directory,
  the user name and the user's home directory are \<^verbatim>\<open>nchar *\<close>, the native text type
  of the build, which is \<^verbatim>\<open>WCHAR\<close> where \<^verbatim>\<open>WIN32\<close> is defined and \<^verbatim>\<open>char\<close>
  elsewhere. The three separators are \<^verbatim>\<open>char *\<close> in every build, and that is the
  native text type exactly in the builds where \<^verbatim>\<open>WIN32\<close> is not defined.
\<close>

theorem native_text_fields:
  "map_of (java_props_t b) ''tmp_dir'' = Some (C_pointer (nchar b))
   \<and> map_of (java_props_t b) ''user_dir'' = Some (C_pointer (nchar b))
   \<and> map_of (java_props_t b) ''user_name'' = Some (C_pointer (nchar b))
   \<and> map_of (java_props_t b) ''user_home'' = Some (C_pointer (nchar b))
   \<and> map_of (java_props_t b) ''file_separator'' = Some (C_pointer C_char)
   \<and> map_of (java_props_t b) ''path_separator'' = Some (C_pointer C_char)
   \<and> map_of (java_props_t b) ''line_separator'' = Some (C_pointer C_char)
   \<and> (nchar b = C_WCHAR) = WIN32 b
   \<and> (nchar b = C_char) = (\<not> WIN32 b)
   \<and> (map_of (java_props_t b) ''file_separator'' = Some (C_pointer (nchar b)))
       = (\<not> WIN32 b)
   \<and> (map_of (java_props_t b) ''path_separator'' = Some (C_pointer (nchar b)))
       = (\<not> WIN32 b)
   \<and> (map_of (java_props_t b) ''line_separator'' = Some (C_pointer (nchar b)))
       = (\<not> WIN32 b)"
  by (simp add: java_props_t_def nchar_def)

text \<open>
  C6 as stated, that the separators too are of the native text type, fails in a build
  with \<^verbatim>\<open>WIN32\<close> defined: there the native type is \<^verbatim>\<open>WCHAR\<close> and the separators are
  still \<^verbatim>\<open>char *\<close>.
\<close>

theorem separators_not_native_on_WIN32:
  "nchar \<lparr>WIN32 = True, JDK_ARCH_ABI_PROP_NAME = False, MACOSX = False\<rparr> = C_WCHAR
   \<and> map_of (java_props_t \<lparr>WIN32 = True, JDK_ARCH_ABI_PROP_NAME = False, MACOSX = False\<rparr>)
         ''file_separator''
       \<noteq> Some (C_pointer (nchar \<lparr>WIN32 = True, JDK_ARCH_ABI_PROP_NAME = False, MACOSX = False\<rparr>))
   \<and> map_of (java_props_t \<lparr>WIN32 = True, JDK_ARCH_ABI_PROP_NAME = False, MACOSX = False\<rparr>)
         ''path_separator''
       \<noteq> Some (C_pointer (nchar \<lparr>WIN32 = True, JDK_ARCH_ABI_PROP_NAME = False, MACOSX = False\<rparr>))
   \<and> map_of (java_props_t \<lparr>WIN32 = True, JDK_ARCH_ABI_PROP_NAME = False, MACOSX = False\<rparr>)
         ''line_separator''
       \<noteq> Some (C_pointer (nchar \<lparr>WIN32 = True, JDK_ARCH_ABI_PROP_NAME = False, MACOSX = False\<rparr>))"
  by (simp add: java_props_t_def nchar_def)

text \<open>
  C7. The proxy members exist only where \<^verbatim>\<open>MACOSX\<close> is defined. The record of such a
  build is the record of the same build without \<^verbatim>\<open>MACOSX\<close>, followed by the proxy
  block: for each of http, https, ftp and socks an enabled flag (an \<^verbatim>\<open>int\<close>, as C has
  it), a host and a port string, and then the exception list (one \<^verbatim>\<open>char *\<close>). A
  build without \<^verbatim>\<open>MACOSX\<close> has no member of any of these names.
\<close>

theorem proxy_block:
  "java_props_t (b\<lparr>MACOSX := True\<rparr>)
     = java_props_t (b\<lparr>MACOSX := False\<rparr>)
       @ [(''httpProxyEnabled'', C_int),
          (''httpHost'', C_pointer C_char),
          (''httpPort'', C_pointer C_char),
          (''httpsProxyEnabled'', C_int),
          (''httpsHost'', C_pointer C_char),
          (''httpsPort'', C_pointer C_char),
          (''ftpProxyEnabled'', C_int),
          (''ftpHost'', C_pointer C_char),
          (''ftpPort'', C_pointer C_char),
          (''socksProxyEnabled'', C_int),
          (''socksHost'', C_pointer C_char),
          (''socksPort'', C_pointer C_char),
          (''exceptionList'', C_pointer C_char)]
   \<and> [f \<leftarrow> java_props_t (b\<lparr>MACOSX := False\<rparr>).
        fst f \<in> set [''httpProxyEnabled'', ''httpHost'', ''httpPort'',
                      ''httpsProxyEnabled'', ''httpsHost'', ''httpsPort'',
                      ''ftpProxyEnabled'', ''ftpHost'', ''ftpPort'',
                      ''socksProxyEnabled'', ''socksHost'', ''socksPort'',
                      ''exceptionList'']] = []"
  by (simp add: java_props_t_def nchar_def)

text \<open>
  C8. The record has a format and a display member for each of the four locale subtags,
  language, script, country and variant: in every build the members whose names start
  with \<^verbatim>\<open>format_\<close> or \<^verbatim>\<open>display_\<close> are exactly these eight, each a \<^verbatim>\<open>char *\<close>.
\<close>

theorem locale_fields:
  "[f \<leftarrow> java_props_t b. take 7 (fst f) = ''format_'' \<or> take 8 (fst f) = ''display_'']
     = [(''format_language'', C_pointer C_char),
        (''display_language'', C_pointer C_char),
        (''format_script'', C_pointer C_char),
        (''display_script'', C_pointer C_char),
        (''format_country'', C_pointer C_char),
        (''display_country'', C_pointer C_char),
        (''format_variant'', C_pointer C_char),
        (''display_variant'', C_pointer C_char)]"
  by (simp add: java_props_t_def)

end
